theory Spec2Isabelle
  imports Main "HOL-Library.Word"
begin

unbundle bit_operations_syntax

section \<open>Identifier codec: base-58 encoding (internal/service, encodeBase58)\<close>

type_synonym byte = "8 word"

text \<open>The base58 alphabet used by IPFS (constant \<open>base58Alphabet\<close>).\<close>

definition base58Alphabet :: string where
  "base58Alphabet = ''123456789ABCDEFGHJKLMNPQRSTUVWXYZabcdefghijkmnopqrstuvwxyz''"

text \<open>
  First loop of \<open>encodeBase58\<close>: \<open>for _, b := range input { if b != 0 { break }; leadingZeros++ }\<close>.
\<close>

fun countLeadingZeros :: "byte list \<Rightarrow> nat \<Rightarrow> nat" where
  "countLeadingZeros [] leadingZeros = leadingZeros"
| "countLeadingZeros (b # bs) leadingZeros =
     (if b \<noteq> 0 then leadingZeros else countLeadingZeros bs (leadingZeros + 1))"

text \<open>
  \<open>for firstNonZero < len(data) && data[firstNonZero] == 0 { firstNonZero++ }\<close>;
  the index is read only after the bound check, as in the source.
\<close>

function findFirstNonZero :: "byte list \<Rightarrow> nat \<Rightarrow> nat" where
  "findFirstNonZero data firstNonZero =
     (if firstNonZero < length data \<and> data ! firstNonZero = 0
      then findFirstNonZero data (firstNonZero + 1)
      else firstNonZero)"
  by pat_completeness auto
termination
  by (relation "measure (\<lambda>(data, firstNonZero). length data - firstNonZero)") auto

declare findFirstNonZero.simps [simp del]

text \<open>
  The division loop \<open>for _, b := range data\<close>: one step of schoolbook division of the
  big-endian number by 58. Go's \<open>int\<close> values here stay below \<open>57 * 256 + 256\<close>, so they are
  modelled as \<open>nat\<close>; \<open>byte(digit)\<close> is the truncating conversion \<open>of_nat\<close>.
\<close>

fun divide58 :: "byte list \<Rightarrow> nat \<Rightarrow> byte list \<Rightarrow> byte list \<times> nat" where
  "divide58 [] remainder newData = (newData, remainder)"
| "divide58 (b # bs) remainder newData =
     (let acc = remainder * 256 + unat b;
          digit = acc div 58;
          remainder' = acc mod 58
      in divide58 bs remainder'
           (if length newData > 0 \<or> digit > 0 then newData @ [of_nat digit] else newData))"

text \<open>The big-endian value of a byte sequence.\<close>

definition bigEndianFrom :: "nat \<Rightarrow> byte list \<Rightarrow> nat" where
  "bigEndianFrom v bs = foldl (\<lambda>v b. v * 256 + unat b) v bs"

definition bigEndianValue :: "byte list \<Rightarrow> nat" where
  "bigEndianValue bs = bigEndianFrom 0 bs"

lemma bigEndianFrom_Nil [simp]: "bigEndianFrom v [] = v"
  by (simp add: bigEndianFrom_def)

lemma bigEndianFrom_Cons [simp]:
  "bigEndianFrom v (b # bs) = bigEndianFrom (v * 256 + unat b) bs"
  by (simp add: bigEndianFrom_def)

lemma bigEndianFrom_snoc [simp]:
  "bigEndianFrom v (bs @ [b]) = bigEndianFrom v bs * 256 + unat b"
  by (simp add: bigEndianFrom_def)

lemma bigEndianValue_Nil [simp]: "bigEndianValue [] = 0"
  by (simp add: bigEndianValue_def)

lemma bigEndianValue_snoc [simp]:
  "bigEndianValue (bs @ [b]) = bigEndianValue bs * 256 + unat b"
  by (simp add: bigEndianValue_def)

lemma bigEndianValue_zero_Cons [simp]: "bigEndianValue (0 # bs) = bigEndianValue bs"
  by (simp add: bigEndianValue_def)

lemma digit_fits_byte:
  assumes "r < 58"
  shows "unat (of_nat ((r * 256 + unat (b::byte)) div 58) :: byte) = (r * 256 + unat b) div 58"
proof -
  have "unat b < 256" using unsigned_less [of b, where 'a = nat] by simp
  with assms have "(r * 256 + unat b) div 58 < 256" by simp
  then show ?thesis by (simp add: unat_of_nat)
qed

lemma divide58_invariant:
  "r < 58 \<Longrightarrow> divide58 bs r nd = (nd', r') \<Longrightarrow>
     58 * bigEndianValue nd' + r' = bigEndianFrom (58 * bigEndianValue nd + r) bs \<and> r' < 58"
proof (induction bs arbitrary: r nd)
  case Nil
  then show ?case by simp
next
  case (Cons b bs)
  let ?acc = "r * 256 + unat b"
  let ?nd = "if length nd > 0 \<or> ?acc div 58 > 0 then nd @ [of_nat (?acc div 58)] else nd"
  from Cons.prems have run: "divide58 bs (?acc mod 58) ?nd = (nd', r')"
    by (simp add: Let_def)
  have val: "bigEndianValue ?nd = bigEndianValue nd * 256 + ?acc div 58"
    using digit_fits_byte [OF Cons.prems(1), of b] by auto
  have "58 * bigEndianValue nd' + r' = bigEndianFrom (58 * bigEndianValue ?nd + ?acc mod 58) bs
      \<and> r' < 58"
    by (rule Cons.IH [OF _ run]) simp
  moreover have "58 * bigEndianValue ?nd + ?acc mod 58 = (58 * bigEndianValue nd + r) * 256 + unat b"
    unfolding val by (simp add: algebra_simps)
  ultimately show ?case by simp
qed

lemma divide58_div_mod:
  assumes "divide58 bs 0 [] = (nd', r')"
  shows "bigEndianValue nd' = bigEndianValue bs div 58" and "r' = bigEndianValue bs mod 58"
proof -
  from divide58_invariant [OF _ assms]
  have eq: "58 * bigEndianValue nd' + r' = bigEndianValue bs" and lt: "r' < 58"
    by (simp_all add: bigEndianValue_def)
  from lt show "bigEndianValue nd' = bigEndianValue bs div 58"
    unfolding eq [symmetric] by simp
  from lt show "r' = bigEndianValue bs mod 58"
    unfolding eq [symmetric] by simp
qed

lemma findFirstNonZero_takeWhile:
  "i \<le> length data \<Longrightarrow>
     findFirstNonZero data i = i + length (takeWhile (\<lambda>b. b = 0) (drop i data))"
proof (induction data i rule: findFirstNonZero.induct)
  case (1 data i)
  show ?case
  proof (cases "i < length data \<and> data ! i = 0")
    case True
    then have d: "drop i data = 0 # drop (i + 1) data"
      by (metis Cons_nth_drop_Suc Suc_eq_plus1)
    from True "1.IH" have "findFirstNonZero data (i + 1) =
        i + 1 + length (takeWhile (\<lambda>b. b = 0) (drop (i + 1) data))"
      by simp
    with True d show ?thesis
      by (subst findFirstNonZero.simps) simp
  next
    case False
    have "takeWhile (\<lambda>b. b = 0) (drop i data) = []"
    proof (cases "i < length data")
      case True
      with False have "data ! i \<noteq> 0" by simp
      moreover from True have "drop i data = data ! i # drop (Suc i) data"
        by (simp add: Cons_nth_drop_Suc)
      ultimately show ?thesis by simp
    next
      case False
      then show ?thesis by simp
    qed
    with False show ?thesis
      by (subst findFirstNonZero.simps) auto
  qed
qed

lemma findFirstNonZero_0:
  "findFirstNonZero data 0 = length (takeWhile (\<lambda>b. b = 0) data)"
  using findFirstNonZero_takeWhile [of 0 data] by simp

lemma drop_findFirstNonZero:
  "drop (findFirstNonZero data 0) data = dropWhile (\<lambda>b. b = 0) data"
  by (simp add: findFirstNonZero_0 dropWhile_eq_drop)

lemma bigEndianValue_dropWhile [simp]:
  "bigEndianValue (dropWhile (\<lambda>b. b = 0) data) = bigEndianValue data"
  by (induction data) simp_all

lemma bigEndianFrom_ge: "v \<le> bigEndianFrom v bs"
proof (induction bs arbitrary: v)
  case Nil
  show ?case by simp
next
  case (Cons b bs)
  have "v \<le> v * 256 + unat b" by simp
  also have "\<dots> \<le> bigEndianFrom (v * 256 + unat b) bs" by (rule Cons.IH)
  finally show ?case by simp
qed

lemma bigEndianValue_pos:
  assumes "findFirstNonZero data 0 \<noteq> length data"
  shows "0 < bigEndianValue data"
proof -
  have "dropWhile (\<lambda>b. b = 0) data \<noteq> []"
  proof
    assume "dropWhile (\<lambda>b. b = 0) data = []"
    then have "\<forall>b\<in>set data. b = 0"
      by (simp add: dropWhile_eq_Nil_conv)
    then have "takeWhile (\<lambda>b. b = 0) data = data"
      by (simp only: takeWhile_eq_all_conv)
    with assms show False
      by (metis findFirstNonZero_0)
  qed
  then obtain b bs where d: "dropWhile (\<lambda>b. b = 0) data = b # bs"
    by (cases "dropWhile (\<lambda>b. b = 0) data") auto
  then have "b \<noteq> 0"
    using hd_dropWhile [of "\<lambda>b. b = 0" data] by auto
  then have "0 < unat b"
    by (simp add: unat_gt_0)
  also have "unat b \<le> bigEndianFrom (unat b) bs"
    by (rule bigEndianFrom_ge)
  also have "\<dots> = bigEndianValue (b # bs)"
    by (simp add: bigEndianValue_def)
  finally show ?thesis
    using bigEndianValue_dropWhile [of data] d by simp
qed

lemma encodeLoop_decreases:
  assumes "findFirstNonZero data 0 \<noteq> length data"
    and "(newData, remainder) = divide58 (drop (findFirstNonZero data 0) data) 0 []"
  shows "bigEndianValue newData < bigEndianValue data"
proof -
  from assms(2) have "bigEndianValue newData = bigEndianValue data div 58"
    using divide58_div_mod(1) [of "drop (findFirstNonZero data 0) data" newData remainder]
    by (simp add: drop_findFirstNonZero)
  moreover from assms(1) have "0 < bigEndianValue data"
    by (rule bigEndianValue_pos)
  ultimately show ?thesis by simp
qed

text \<open>
  The outer loop \<open>for len(data) > 0\<close>: strip the leading zero bytes, stop when nothing
  is left, otherwise divide by 58 and prepend the alphabet character of the remainder
  (\<open>result = append([]byte{base58Alphabet[remainder]}, result...)\<close>).
\<close>

function encodeLoop :: "byte list \<Rightarrow> string \<Rightarrow> string" where
  "encodeLoop data result =
     (if length data > 0 then
        (let firstNonZero = findFirstNonZero data 0 in
         if firstNonZero = length data then result
         else (case divide58 (drop firstNonZero data) 0 [] of
                 (newData, remainder) \<Rightarrow>
                   encodeLoop newData (base58Alphabet ! remainder # result)))
      else result)"
  by pat_completeness auto
termination
proof (relation "measure (\<lambda>(data, result). bigEndianValue data)", goal_cases)
  case 1
  show ?case by simp
next
  case (2 data result firstNonZero newData remainder)
  then show ?case
    using encodeLoop_decreases [of data newData remainder] by simp
qed

declare encodeLoop.simps [simp del]

text \<open>\<open>for i := 0; i < leadingZeros; i++ { result = append([]byte{'1'}, result...) }\<close>\<close>

function prependOnes :: "nat \<Rightarrow> nat \<Rightarrow> string \<Rightarrow> string" where
  "prependOnes i leadingZeros result =
     (if i < leadingZeros then prependOnes (i + 1) leadingZeros (CHR ''1'' # result)
      else result)"
  by pat_completeness auto
termination
  by (relation "measure (\<lambda>(i, leadingZeros, result). leadingZeros - i)") auto

declare prependOnes.simps [simp del]

definition encodeBase58 :: "byte list \<Rightarrow> string" where
  "encodeBase58 input =
     (let leadingZeros = countLeadingZeros input 0;
          result = encodeLoop input []
      in prependOnes 0 leadingZeros result)"

text \<open>
  The encoding as the specification words it: the digits of a number in base 58, obtained by
  repeated division with the character of each remainder put in front of the ones already
  produced.
\<close>

function base58Digits :: "nat \<Rightarrow> string" where
  "base58Digits n =
     (if n = 0 then [] else base58Digits (n div 58) @ [base58Alphabet ! (n mod 58)])"
  by pat_completeness auto
termination
  by (relation "measure id") auto

declare base58Digits.simps [simp del]

subsection \<open>The loops compute the base-58 digits\<close>

lemma countLeadingZeros_takeWhile:
  "countLeadingZeros input n = n + length (takeWhile (\<lambda>b. b = 0) input)"
  by (induction input arbitrary: n) simp_all

lemma prependOnes_replicate:
  "prependOnes i n result = replicate (n - i) (CHR ''1'') @ result"
proof (induction i n result rule: prependOnes.induct)
  case (1 i n result)
  show ?case
  proof (cases "i < n")
    case True
    then have "n - i = Suc (n - (i + 1))" by simp
    with True "1.IH" show ?thesis
      by (subst prependOnes.simps) (simp add: replicate_append_same)
  next
    case False
    then show ?thesis
      by (subst prependOnes.simps) simp
  qed
qed

lemma base58Digits_step:
  "0 < n \<Longrightarrow> base58Digits (n div 58) @ base58Alphabet ! (n mod 58) # result
     = base58Digits n @ result"
  by (subst (2) base58Digits.simps) simp

lemma encodeLoop_digits:
  "encodeLoop data result = base58Digits (bigEndianValue data) @ result"
proof (induction data result rule: encodeLoop.induct)
  case (1 data result)
  show ?case
  proof (cases "findFirstNonZero data 0 = length data")
    case True
    then have "takeWhile (\<lambda>b. b = 0) data = data"
      by (metis findFirstNonZero_0 takeWhile_eq_take take_all order_refl)
    then have "dropWhile (\<lambda>b. b = 0) data = []"
      by (metis takeWhile_dropWhile_id self_append_conv)
    then have "bigEndianValue data = 0"
      by (metis bigEndianValue_dropWhile bigEndianValue_Nil)
    with True show ?thesis
      by (subst encodeLoop.simps) (simp add: base58Digits.simps)
  next
    case False
    then have ne: "0 < length data" by (cases data) (auto simp: findFirstNonZero.simps)
    obtain newData remainder where
      run: "divide58 (drop (findFirstNonZero data 0) data) 0 [] = (newData, remainder)"
      by (cases "divide58 (drop (findFirstNonZero data 0) data) 0 []") auto
    from divide58_div_mod [OF run]
    have q: "bigEndianValue newData = bigEndianValue data div 58"
      and r: "remainder = bigEndianValue data mod 58"
      by (simp_all add: drop_findFirstNonZero)
    have "encodeLoop data result = encodeLoop newData (base58Alphabet ! remainder # result)"
      using False ne run by (subst encodeLoop.simps) simp
    also have "\<dots> = base58Digits (bigEndianValue newData) @ base58Alphabet ! remainder # result"
      using "1.IH" [OF ne refl False run [symmetric]] .
    also have "\<dots> = base58Digits (bigEndianValue data) @ result"
      unfolding q r by (rule base58Digits_step) (rule bigEndianValue_pos [OF False])
    finally show ?thesis .
  qed
qed

lemma divide58_remainder_in_alphabet:
  "divide58 data 0 [] = (newData, remainder) \<Longrightarrow> remainder < length base58Alphabet"
  using divide58_invariant [of 0 data "[]" newData remainder]
  by (simp add: base58Alphabet_def)

lemma encodeBase58_eq:
  "encodeBase58 input =
     replicate (length (takeWhile (\<lambda>b. b = 0) input)) (CHR ''1'')
       @ base58Digits (bigEndianValue input)"
  by (simp add: encodeBase58_def countLeadingZeros_takeWhile prependOnes_replicate
      encodeLoop_digits)

section \<open>SHA-256 (Go's \<open>crypto/sha256\<close>, \<open>Sum256\<close>)\<close>

type_synonym u32 = "32 word"

definition sha256_K :: "u32 list" where
  "sha256_K =
    [0x428A2F98, 0x71374491, 0xB5C0FBCF, 0xE9B5DBA5,
     0x3956C25B, 0x59F111F1, 0x923F82A4, 0xAB1C5ED5,
     0xD807AA98, 0x12835B01, 0x243185BE, 0x550C7DC3,
     0x72BE5D74, 0x80DEB1FE, 0x9BDC06A7, 0xC19BF174,
     0xE49B69C1, 0xEFBE4786, 0x0FC19DC6, 0x240CA1CC,
     0x2DE92C6F, 0x4A7484AA, 0x5CB0A9DC, 0x76F988DA,
     0x983E5152, 0xA831C66D, 0xB00327C8, 0xBF597FC7,
     0xC6E00BF3, 0xD5A79147, 0x06CA6351, 0x14292967,
     0x27B70A85, 0x2E1B2138, 0x4D2C6DFC, 0x53380D13,
     0x650A7354, 0x766A0ABB, 0x81C2C92E, 0x92722C85,
     0xA2BFE8A1, 0xA81A664B, 0xC24B8B70, 0xC76C51A3,
     0xD192E819, 0xD6990624, 0xF40E3585, 0x106AA070,
     0x19A4C116, 0x1E376C08, 0x2748774C, 0x34B0BCB5,
     0x391C0CB3, 0x4ED8AA4A, 0x5B9CCA4F, 0x682E6FF3,
     0x748F82EE, 0x78A5636F, 0x84C87814, 0x8CC70208,
     0x90BEFFFA, 0xA4506CEB, 0xBEF9A3F7, 0xC67178F2]"

text \<open>The chaining value \<open>h[0..7]\<close> is a tuple, so a digest has eight words by its type.\<close>

type_synonym sha256_state = "u32 \<times> u32 \<times> u32 \<times> u32 \<times> u32 \<times> u32 \<times> u32 \<times> u32"

definition sha256_init :: sha256_state where
  "sha256_init =
    (0x6A09E667, 0xBB67AE85, 0x3C6EF372, 0xA54FF53A,
     0x510E527F, 0x9B05688C, 0x1F83D9AB, 0x5BE0CD19)"

definition rotr :: "nat \<Rightarrow> u32 \<Rightarrow> u32" where
  "rotr n x = drop_bit n x OR push_bit (32 - n) x"

definition ch :: "u32 \<Rightarrow> u32 \<Rightarrow> u32 \<Rightarrow> u32" where
  "ch x y z = (x AND y) XOR (NOT x AND z)"

definition maj :: "u32 \<Rightarrow> u32 \<Rightarrow> u32 \<Rightarrow> u32" where
  "maj x y z = (x AND y) XOR (x AND z) XOR (y AND z)"

definition bsig0 :: "u32 \<Rightarrow> u32" where
  "bsig0 x = rotr 2 x XOR rotr 13 x XOR rotr 22 x"

definition bsig1 :: "u32 \<Rightarrow> u32" where
  "bsig1 x = rotr 6 x XOR rotr 11 x XOR rotr 25 x"

definition ssig0 :: "u32 \<Rightarrow> u32" where
  "ssig0 x = rotr 7 x XOR rotr 18 x XOR drop_bit 3 x"

definition ssig1 :: "u32 \<Rightarrow> u32" where
  "ssig1 x = rotr 17 x XOR rotr 19 x XOR drop_bit 10 x"

text \<open>
  Padding: the byte \<open>0x80\<close>, zero bytes up to 56 modulo 64, and the length in bits as a
  big-endian \<open>uint64\<close> (\<open>len << 3\<close>, wrapping as the machine word does).
\<close>

definition be64_bytes :: "64 word \<Rightarrow> byte list" where
  "be64_bytes w = map (\<lambda>i. ucast (drop_bit (8 * (7 - i)) w)) [0..<8]"

definition sha256_pad :: "byte list \<Rightarrow> byte list" where
  "sha256_pad msg =
     (let len = length msg;
          t = (if len mod 64 < 56 then 56 - len mod 64 else 64 + 56 - len mod 64)
      in msg @ 0x80 # replicate (t - 1) 0 @ be64_bytes (push_bit 3 (of_nat len)))"

fun be32_words :: "byte list \<Rightarrow> u32 list" where
  "be32_words (a # b # c # d # rest) =
     (push_bit 24 (ucast a) OR push_bit 16 (ucast b) OR push_bit 8 (ucast c) OR ucast d)
       # be32_words rest"
| "be32_words _ = []"

text \<open>The message schedule: sixteen words of the block, extended to sixty-four.\<close>

fun sha256_schedule :: "nat \<Rightarrow> u32 list \<Rightarrow> u32 list" where
  "sha256_schedule 0 w = w"
| "sha256_schedule (Suc n) w =
     (let i = length w;
          v = ssig1 (w ! (i - 2)) + w ! (i - 7) + ssig0 (w ! (i - 15)) + w ! (i - 16)
      in sha256_schedule n (w @ [v]))"

fun sha256_round :: "sha256_state \<Rightarrow> u32 \<times> u32 \<Rightarrow> sha256_state" where
  "sha256_round (a, b, c, d, e, f, g, h) (k, w) =
     (let t1 = h + bsig1 e + ch e f g + k + w;
          t2 = bsig0 a + maj a b c
      in (t1 + t2, a, b, c, d + t1, e, f, g))"

fun sha256_add :: "sha256_state \<Rightarrow> sha256_state \<Rightarrow> sha256_state" where
  "sha256_add (h0, h1, h2, h3, h4, h5, h6, h7) (a, b, c, d, e, f, g, h) =
     (h0 + a, h1 + b, h2 + c, h3 + d, h4 + e, h5 + f, h6 + g, h7 + h)"

definition sha256_block :: "sha256_state \<Rightarrow> byte list \<Rightarrow> sha256_state" where
  "sha256_block st blk =
     sha256_add st (foldl sha256_round st (zip sha256_K (sha256_schedule 48 (be32_words blk))))"

function sha256_blocks :: "sha256_state \<Rightarrow> byte list \<Rightarrow> sha256_state" where
  "sha256_blocks st p =
     (if length p \<ge> 64 then sha256_blocks (sha256_block st (take 64 p)) (drop 64 p) else st)"
  by pat_completeness auto
termination
  by (relation "measure (\<lambda>(st, p). length p)") auto

declare sha256_blocks.simps [simp del]

definition be32_bytes :: "u32 \<Rightarrow> byte list" where
  "be32_bytes w = [ucast (drop_bit 24 w), ucast (drop_bit 16 w), ucast (drop_bit 8 w), ucast w]"

fun sha256_digest :: "sha256_state \<Rightarrow> byte list" where
  "sha256_digest (h0, h1, h2, h3, h4, h5, h6, h7) =
     concat (map be32_bytes [h0, h1, h2, h3, h4, h5, h6, h7])"

definition sha256 :: "byte list \<Rightarrow> byte list" where
  "sha256 msg = sha256_digest (sha256_blocks sha256_init (sha256_pad msg))"

lemma length_sha256 [simp]: "length (sha256 msg) = 32"
proof -
  obtain h0 h1 h2 h3 h4 h5 h6 h7 where
    "sha256_blocks sha256_init (sha256_pad msg) = (h0, h1, h2, h3, h4, h5, h6, h7)"
    by (metis prod_cases4)
  then show ?thesis
    by (simp add: sha256_def be32_bytes_def)
qed

section \<open>Library functions the service calls\<close>

text \<open>
  \<open>fmt.Sprintf("%d", n)\<close> for a length \<open>n\<close>: its decimal digits.
\<close>

function decimal :: "nat \<Rightarrow> string" where
  "decimal n =
     (if n < 10 then [char_of (48 + n)] else decimal (n div 10) @ [char_of (48 + n mod 10)])"
  by pat_completeness auto
termination
  by (relation "measure id") auto

declare decimal.simps [simp del]

text \<open>
  \<open>strconv.ParseInt(s, 10, 64)\<close>. The unsigned part is \<open>ParseUint\<close>: every character must be
  a decimal digit (a letter is a digit value of at least ten, which base 10 rejects like any
  other character), and the accumulator is a \<open>uint64\<close>; an overflow stops the scan at once
  with the range error and the largest value. \<open>ParseInt\<close> returns 0 on a syntax error and the
  nearest \<open>int64\<close> on a range error. The \<open>int64\<close> result is given by its value.
\<close>

datatype NumError = ErrSyntax | ErrRange

definition isDigit :: "char \<Rightarrow> bool" where
  "isDigit c = (48 \<le> (of_char c :: nat) \<and> (of_char c :: nat) \<le> 57)"

definition maxUint64 :: "64 word" where
  "maxUint64 = - 1"

fun parseUintLoop :: "string \<Rightarrow> 64 word \<Rightarrow> 64 word \<times> NumError option" where
  "parseUintLoop [] n = (n, None)"
| "parseUintLoop (c # cs) n =
     (if isDigit c then
        (let d = of_char c - 48 :: 64 word;
             cutoff = maxUint64 div 10 + 1
         in if n \<ge> cutoff then (maxUint64, Some ErrRange)
            else (let n' = n * 10;
                      n1 = n' + d
                  in if n1 < n' \<or> n1 > maxUint64 then (maxUint64, Some ErrRange)
                     else parseUintLoop cs n1))
      else (0, Some ErrSyntax))"

definition ParseUint :: "string \<Rightarrow> 64 word \<times> NumError option" where
  "ParseUint s = (if s = [] then (0, Some ErrSyntax) else parseUintLoop s 0)"

definition ParseInt :: "string \<Rightarrow> int \<times> NumError option" where
  "ParseInt s =
     (if s = [] then (0, Some ErrSyntax)
      else
        (let neg = (hd s = CHR ''-'');
             s' = (if hd s = CHR ''+'' \<or> hd s = CHR ''-'' then tl s else s)
         in case ParseUint s' of
              (un, err) \<Rightarrow>
                if err = Some ErrSyntax then (0, err)
                else
                  (let cutoff = push_bit 63 1 :: 64 word
                   in if \<not> neg \<and> un \<ge> cutoff then (sint (cutoff - 1), Some ErrRange)
                      else if neg \<and> un > cutoff then (sint (- cutoff), Some ErrRange)
                      else (sint (if neg then - un else un), None))))"

section \<open>The storage client contract (interface \<open>IPFSClient\<close>)\<close>

text \<open>A Go \<open>error\<close> is modelled by its message; \<open>nil\<close> is the absence of one.\<close>

type_synonym error = string

text \<open>
  Modelled from the spec: the struct \<open>AddResponse\<close> is declared with the remote client, in a
  file that is not among the sources. Its fields are the three that the code here reads and
  writes (\<open>Name\<close>, \<open>IPFSHash\<close>, \<open>Size\<close>), the upload result of the specification: the
  name, the identifier string and the size as a string-encoded integer.
\<close>

record AddResponse =
  Name :: string
  IPFSHash :: string
  Size :: string

text \<open>
  The interface: five operations of an implementation whose state is \<open>'s\<close>. Each operation
  takes the state and returns the new one, so that a call is visible in the state of an
  implementation that records it. The context argument is not modelled: an implementation
  that honours cancellation does so through its result.
\<close>

record 's IPFSClient =
  Upload :: "byte list \<Rightarrow> string \<Rightarrow> 's \<Rightarrow> (error + AddResponse) \<times> 's"
  Get :: "string \<Rightarrow> 's \<Rightarrow> (error + byte list) \<times> 's"
  Pin :: "string \<Rightarrow> 's \<Rightarrow> error option \<times> 's"
  Unpin :: "string \<Rightarrow> 's \<Rightarrow> error option \<times> 's"
  GetGatewayURL :: "string \<Rightarrow> 's \<Rightarrow> string \<times> 's"

section \<open>The in-memory adapter (\<open>MockClient\<close>)\<close>

text \<open>
  The two maps and the gateway base. The mutex is not modelled: the operations are taken one
  at a time. Log lines are not part of the state.
\<close>

record MockClient =
  storage :: "string \<rightharpoonup> byte list"
  pins :: "string \<rightharpoonup> bool"
  gatewayURL :: string

definition NewMockClient :: "string \<Rightarrow> MockClient" where
  "NewMockClient url =
     \<lparr>storage = Map.empty, pins = Map.empty,
      gatewayURL = (if url = [] then ''https://ipfs.io/ipfs'' else url)\<rparr>"

text \<open>
  Go's \<open>copy(dst[off:], src)\<close>: as many elements as both sides have, the rest of \<open>dst\<close>
  kept.
\<close>

definition copyAt :: "nat \<Rightarrow> 'a list \<Rightarrow> 'a list \<Rightarrow> 'a list" where
  "copyAt off dst src =
     (let n = min (length dst - off) (length src)
      in take off dst @ take n src @ drop (off + n) dst)"

definition buildMultihash :: "byte list \<Rightarrow> byte list" where
  "buildMultihash data =
     (let hash = sha256 data;
          multihash = replicate 34 0;
          multihash = multihash[0 := 0x12];
          multihash = multihash[1 := 0x20]
      in copyAt 2 multihash hash)"

text \<open>
  \<open>Upload\<close> ignores the context and cannot fail. The map keeps the slice it is given; the
  model keeps its value, that is, the caller does not write to the slice afterwards.
\<close>

definition MockClient_Upload ::
  "byte list \<Rightarrow> string \<Rightarrow> MockClient \<Rightarrow> (error + AddResponse) \<times> MockClient" where
  "MockClient_Upload data filename c =
     (let cid = encodeBase58 (buildMultihash data)
      in (Inr \<lparr>Name = filename, IPFSHash = cid, Size = decimal (length data)\<rparr>,
          c\<lparr>storage := (storage c)(cid \<mapsto> data)\<rparr>))"

definition MockClient_Get :: "string \<Rightarrow> MockClient \<Rightarrow> (error + byte list) \<times> MockClient" where
  "MockClient_Get cid c =
     (case storage c cid of
        None \<Rightarrow> (Inl (''content not found: '' @ cid @ '' (mock storage was likely reset)''), c)
      | Some data \<Rightarrow> (Inr data, c))"

definition MockClient_Pin :: "string \<Rightarrow> MockClient \<Rightarrow> error option \<times> MockClient" where
  "MockClient_Pin cid c = (None, c\<lparr>pins := (pins c)(cid \<mapsto> True)\<rparr>)"

definition MockClient_Unpin :: "string \<Rightarrow> MockClient \<Rightarrow> error option \<times> MockClient" where
  "MockClient_Unpin cid c = (None, c\<lparr>pins := (pins c)(cid := None)\<rparr>)"

definition MockClient_GetGatewayURL :: "string \<Rightarrow> MockClient \<Rightarrow> string \<times> MockClient" where
  "MockClient_GetGatewayURL cid c = (gatewayURL c @ ''/'' @ cid, c)"

text \<open>\<open>c.pins[cid]\<close>: the zero value \<open>false\<close> for a key that is not in the map.\<close>

definition IsPinned :: "string \<Rightarrow> MockClient \<Rightarrow> bool" where
  "IsPinned cid c = (case pins c cid of None \<Rightarrow> False | Some b \<Rightarrow> b)"

text \<open>\<open>var _ IPFSClient = (*MockClient)(nil)\<close>: the adapter as an implementation.\<close>

definition MockIPFSClient :: "MockClient IPFSClient" where
  "MockIPFSClient =
     \<lparr>Upload = MockClient_Upload, Get = MockClient_Get, Pin = MockClient_Pin,
      Unpin = MockClient_Unpin, GetGatewayURL = MockClient_GetGatewayURL\<rparr>"

section \<open>The RPC translation layer (\<open>GRPCServer\<close>)\<close>

text \<open>
  The status codes the handlers use, and a status with its message
  (\<open>status.Error(code, msg)\<close>, \<open>status.Errorf(code, format, err)\<close>).
\<close>

datatype codes = InvalidArgument | Internal | NotFound

datatype status = Status codes string

text \<open>
  Modelled from the spec: the request and response messages are declared in the generated
  package \<open>ipfs/v1\<close>, which is not among the sources. Each record has the fields of the
  specification's table of the RPC surface, under the names by which the handlers read and
  write them. An \<open>int64\<close> field is given by its value.
\<close>

record UploadContentRequest =
  Data :: "byte list"
  Filename :: string

record UploadContentResponse =
  Cid :: string
  SizeBytes :: int

record UploadProtoRequest =
  ProtoData :: "byte list"
  ProtoType :: string

record UploadProtoResponse =
  Cid :: string
  SizeBytes :: int

record GetContentRequest =
  Cid :: string

record GetContentResponse =
  Data :: "byte list"
  SizeBytes :: int

record GetProtoRequest =
  Cid :: string

record GetProtoResponse =
  ProtoData :: "byte list"

record PinContentRequest =
  Cid :: string

record PinContentResponse =
  Success :: bool

record UnpinContentRequest =
  Cid :: string

record UnpinContentResponse =
  Success :: bool

record GetGatewayURLRequest =
  Cid :: string

record GetGatewayURLResponse =
  Url :: string

text \<open>
  The handlers, for a server holding the client \<open>client\<close> whose state is \<open>s\<close>. The result is
  the pair the Go method returns (a status in place of the error) and the client's state
  afterwards. The handler \<open>GetGatewayURL\<close> is \<open>GRPCServer_GetGatewayURL\<close> here, the plain
  name being the client's operation.
\<close>

definition UploadContent ::
  "'s IPFSClient \<Rightarrow> UploadContentRequest \<Rightarrow> 's \<Rightarrow> (status + UploadContentResponse) \<times> 's" where
  "UploadContent client req s =
     (if length (UploadContentRequest.Data req) = 0
      then (Inl (Status InvalidArgument ''data is required''), s)
      else
        (let filename = (if Filename req = [] then ''content'' else Filename req)
         in case Upload client (UploadContentRequest.Data req) filename s of
              (Inl err, s') \<Rightarrow>
                (Inl (Status Internal (''failed to upload content: '' @ err)), s')
            | (Inr result, s') \<Rightarrow>
                (let size = fst (ParseInt (Size result))
                 in (Inr \<lparr>UploadContentResponse.Cid = IPFSHash result,
                          UploadContentResponse.SizeBytes = size\<rparr>, s'))))"

definition UploadProto ::
  "'s IPFSClient \<Rightarrow> UploadProtoRequest \<Rightarrow> 's \<Rightarrow> (status + UploadProtoResponse) \<times> 's" where
  "UploadProto client req s =
     (if length (UploadProtoRequest.ProtoData req) = 0
      then (Inl (Status InvalidArgument ''proto_data is required''), s)
      else
        (let filename = (if ProtoType req = [] then ''data.pb'' else ProtoType req @ ''.pb'')
         in case Upload client (UploadProtoRequest.ProtoData req) filename s of
              (Inl err, s') \<Rightarrow>
                (Inl (Status Internal (''failed to upload proto: '' @ err)), s')
            | (Inr result, s') \<Rightarrow>
                (let size = fst (ParseInt (Size result))
                 in (Inr \<lparr>UploadProtoResponse.Cid = IPFSHash result,
                          UploadProtoResponse.SizeBytes = size\<rparr>, s'))))"

definition GetContent ::
  "'s IPFSClient \<Rightarrow> GetContentRequest \<Rightarrow> 's \<Rightarrow> (status + GetContentResponse) \<times> 's" where
  "GetContent client req s =
     (if GetContentRequest.Cid req = []
      then (Inl (Status InvalidArgument ''cid is required''), s)
      else
        (case Get client (GetContentRequest.Cid req) s of
           (Inl err, s') \<Rightarrow> (Inl (Status NotFound (''failed to get content: '' @ err)), s')
         | (Inr data, s') \<Rightarrow>
             (Inr \<lparr>GetContentResponse.Data = data,
                   GetContentResponse.SizeBytes = int (length data)\<rparr>, s')))"

definition GetProto ::
  "'s IPFSClient \<Rightarrow> GetProtoRequest \<Rightarrow> 's \<Rightarrow> (status + GetProtoResponse) \<times> 's" where
  "GetProto client req s =
     (if GetProtoRequest.Cid req = []
      then (Inl (Status InvalidArgument ''cid is required''), s)
      else
        (case Get client (GetProtoRequest.Cid req) s of
           (Inl err, s') \<Rightarrow> (Inl (Status NotFound (''failed to get proto: '' @ err)), s')
         | (Inr data, s') \<Rightarrow> (Inr \<lparr>GetProtoResponse.ProtoData = data\<rparr>, s')))"

definition PinContent ::
  "'s IPFSClient \<Rightarrow> PinContentRequest \<Rightarrow> 's \<Rightarrow> (status + PinContentResponse) \<times> 's" where
  "PinContent client req s =
     (if PinContentRequest.Cid req = []
      then (Inl (Status InvalidArgument ''cid is required''), s)
      else
        (case Pin client (PinContentRequest.Cid req) s of
           (Some err, s') \<Rightarrow> (Inl (Status Internal (''failed to pin content: '' @ err)), s')
         | (None, s') \<Rightarrow> (Inr \<lparr>PinContentResponse.Success = True\<rparr>, s')))"

definition UnpinContent ::
  "'s IPFSClient \<Rightarrow> UnpinContentRequest \<Rightarrow> 's \<Rightarrow> (status + UnpinContentResponse) \<times> 's" where
  "UnpinContent client req s =
     (if UnpinContentRequest.Cid req = []
      then (Inl (Status InvalidArgument ''cid is required''), s)
      else
        (case Unpin client (UnpinContentRequest.Cid req) s of
           (Some err, s') \<Rightarrow> (Inl (Status Internal (''failed to unpin content: '' @ err)), s')
         | (None, s') \<Rightarrow> (Inr \<lparr>UnpinContentResponse.Success = True\<rparr>, s')))"

definition GRPCServer_GetGatewayURL ::
  "'s IPFSClient \<Rightarrow> GetGatewayURLRequest \<Rightarrow> 's \<Rightarrow> (status + GetGatewayURLResponse) \<times> 's" where
  "GRPCServer_GetGatewayURL client req s =
     (if GetGatewayURLRequest.Cid req = []
      then (Inl (Status InvalidArgument ''cid is required''), s)
      else
        (case GetGatewayURL client (GetGatewayURLRequest.Cid req) s of
           (url, s') \<Rightarrow> (Inr \<lparr>Url = url\<rparr>, s')))"

section \<open>A client for instantiating the theorems\<close>

text \<open>
  An implementation of the interface whose backend is up or down (its state): every call
  succeeds while it is up and fails with the same error while it is down. The size string
  it reports for an upload is a parameter. It stands for the remote adapter, whose calls can
  fail, where a theorem is applied to a concrete client.
\<close>

definition stubClient :: "string \<Rightarrow> bool IPFSClient" where
  "stubClient sz =
     \<lparr>Upload = (\<lambda>data filename up.
        (if up then Inr \<lparr>Name = filename, IPFSHash = ''QmStub'', Size = sz\<rparr>
         else Inl ''backend down'', up)),
      Get = (\<lambda>cid up. (if up then Inr [1, 2, 3] else Inl ''backend down'', up)),
      Pin = (\<lambda>cid up. (if up then None else Some ''backend down'', up)),
      Unpin = (\<lambda>cid up. (if up then None else Some ''backend down'', up)),
      GetGatewayURL = (\<lambda>cid up. (''https://gw/'' @ cid, up))\<rparr>"

subsection \<open>The multihash\<close>

lemma copyAt_multihash:
  "length hash = 32 \<Longrightarrow> copyAt 2 ((replicate 34 (0::byte))[0 := 0x12, 1 := 0x20]) hash = 0x12 # 0x20 # hash"
  by (simp add: copyAt_def numeral_eq_Suc)

lemma buildMultihash_eq: "buildMultihash data = 0x12 # 0x20 # sha256 data"
  using copyAt_multihash [of "sha256 data"] by (simp add: buildMultihash_def Let_def)

subsection \<open>What \<open>ParseInt\<close> returns\<close>

lemma ParseInt_5: "ParseInt ''5'' = (5, None)"
  by code_simp

lemma ParseInt_abc: "ParseInt ''abc'' = (0, Some ErrSyntax)"
  by code_simp

lemma ParseInt_20_nines: "ParseInt ''99999999999999999999'' = (9223372036854775807, Some ErrRange)"
  by code_simp

lemma cutoff_value: "(maxUint64 div 10 + 1 :: 64 word) = 1844674407370955162"
  by (simp add: maxUint64_def)

lemma digit_value_le:
  assumes "isDigit c"
  shows "unat (of_char c - 48 :: 64 word) \<le> 9"
proof -
  define k :: nat where "k = of_char c"
  from assms have k: "48 \<le> k" "k \<le> 57"
    by (simp_all add: isDigit_def k_def)
  have "(of_char c :: 64 word) = of_nat k"
    by (simp add: k_def of_nat_of_char)
  moreover have uk: "unat (of_nat k :: 64 word) = k"
    using k by (simp add: unat_of_nat)
  moreover from uk k have "(48 :: 64 word) \<le> of_nat k"
    by (simp add: word_le_nat_alt)
  then have "unat (of_nat k - 48 :: 64 word) = unat (of_nat k :: 64 word) - unat (48 :: 64 word)"
    by (rule unat_sub)
  ultimately show ?thesis
    using k by simp
qed

lemma parseUintLoop_non_digit:
  assumes "\<forall>c\<in>set ds. isDigit c" and "\<not> isDigit x"
    and "unat n < 10 ^ k" and "k + length ds \<le> 18"
  shows "parseUintLoop (ds @ x # rest) n = (0, Some ErrSyntax)"
  using assms
proof (induction ds arbitrary: n k)
  case Nil
  then show ?case by simp
next
  case (Cons c ds)
  let ?d = "of_char c - 48 :: 64 word"
  from Cons.prems have dig: "isDigit c" by simp
  then have d: "unat ?d \<le> 9" by (rule digit_value_le)
  from Cons.prems have k: "k \<le> 17" by simp
  then have "(10::nat) ^ k \<le> 10 ^ 17" by (intro power_increasing) simp_all
  with Cons.prems have n: "unat n < 10 ^ 17" by simp
  then have below: "\<not> n \<ge> (1844674407370955162 :: 64 word)"
    by (simp add: word_le_nat_alt)
  have mul: "unat (n * 10) = unat n * 10"
    using n by (simp add: unat_word_ariths)
  have add: "unat (n * 10 + ?d) = unat n * 10 + unat ?d"
    using n d mul by (simp add: unat_word_ariths)
  have nowrap: "\<not> n * 10 + ?d < n * 10"
    using add mul by (simp add: word_less_nat_alt)
  have nomax: "\<not> n * 10 + ?d > maxUint64"
    by (simp add: maxUint64_def word_less_nat_alt not_less) (metis max_word_max maxUint64_def word_le_nat_alt)
  from Cons.prems d have next_lt: "unat (n * 10 + ?d) < 10 ^ Suc k"
    unfolding add by simp
  have "parseUintLoop (ds @ x # rest) (n * 10 + ?d) = (0, Some ErrSyntax)"
    using Cons.prems by (intro Cons.IH [OF _ _ next_lt]) simp_all
  with dig below nowrap nomax show ?case
    by (simp add: Let_def cutoff_value)
qed


lemma isDigit_not_sign: "isDigit c \<Longrightarrow> c \<noteq> CHR ''+'' \<and> c \<noteq> CHR ''-''"
  by (auto simp: isDigit_def)

lemma ParseUint_non_digit:
  assumes "\<forall>c\<in>set ds. isDigit c" and "length ds \<le> 18" and "\<not> isDigit x"
  shows "ParseUint (ds @ x # rest) = (0, Some ErrSyntax)"
  using parseUintLoop_non_digit [OF assms(1) assms(3), of 0 0 rest] assms(2)
  by (simp add: ParseUint_def)

lemma ParseInt_syntax_zero: "snd (ParseInt sz) = Some ErrSyntax \<Longrightarrow> fst (ParseInt sz) = 0"
  by (auto simp: ParseInt_def Let_def split: if_splits prod.splits)

lemma ParseInt_range_clamped:
  "snd (ParseInt sz) = Some ErrRange \<Longrightarrow>
     fst (ParseInt sz) = 9223372036854775807 \<or> fst (ParseInt sz) = - 9223372036854775808"
  by (auto simp: ParseInt_def Let_def split: if_splits prod.splits)

text \<open>
  Strings that are not numbers are syntax errors: the empty string, a sign alone, and any
  string in which, after the optional sign, a character that is not a digit comes after at
  most eighteen digits.
\<close>

lemma ParseInt_empty: "ParseInt [] = (0, Some ErrSyntax)"
  by (simp add: ParseInt_def)

lemma ParseInt_sign_only:
  "ParseInt ''+'' = (0, Some ErrSyntax)" "ParseInt ''-'' = (0, Some ErrSyntax)"
  by (simp_all add: ParseInt_def ParseUint_def)

lemma ParseInt_non_digit_signed:
  assumes "sign = CHR ''+'' \<or> sign = CHR ''-''"
    and "\<forall>c\<in>set ds. isDigit c" and "length ds \<le> 18" and "\<not> isDigit x"
  shows "ParseInt (sign # ds @ x # rest) = (0, Some ErrSyntax)"
  using assms(1) ParseUint_non_digit [OF assms(2-4), of rest]
  by (auto simp: ParseInt_def)

lemma ParseInt_non_digit_unsigned:
  assumes "\<forall>c\<in>set ds. isDigit c" and "length ds \<le> 18" and "\<not> isDigit x"
    and "ds \<noteq> [] \<or> (x \<noteq> CHR ''+'' \<and> x \<noteq> CHR ''-'')"
  shows "ParseInt (ds @ x # rest) = (0, Some ErrSyntax)"
proof -
  have "hd (ds @ x # rest) \<noteq> CHR ''+'' \<and> hd (ds @ x # rest) \<noteq> CHR ''-''"
  proof (cases ds)
    case Nil
    with assms(4) show ?thesis by simp
  next
    case (Cons c cs)
    with assms(1) have "isDigit c" by simp
    with Cons show ?thesis using isDigit_not_sign [of c] by simp
  qed
  with ParseUint_non_digit [OF assms(1-3), of rest] show ?thesis
    by (simp add: ParseInt_def)
qed

subsection \<open>Known vectors\<close>

text \<open>
  The digest of the empty input, and the identifier of the empty payload that follows from
  it: the well-known CIDv0 of the empty block.
\<close>

lemma sha256_empty:
  "sha256 [] =
    [0xe3, 0xb0, 0xc4, 0x42, 0x98, 0xfc, 0x1c, 0x14, 0x9a, 0xfb, 0xf4, 0xc8, 0x99, 0x6f, 0xb9, 0x24,
     0x27, 0xae, 0x41, 0xe4, 0x64, 0x9b, 0x93, 0x4c, 0xa4, 0x95, 0x99, 0x1b, 0x78, 0x52, 0xb8, 0x55]"
  by code_simp

lemma base58Digits_numeral:
  "base58Digits (numeral k) =
     base58Digits (numeral k div 58) @ [base58Alphabet ! (numeral k mod 58)]"
  by (subst base58Digits.simps) simp

lemma base58Digits_0: "base58Digits 0 = []"
  by (simp add: base58Digits.simps)

lemma base58Digits_1: "base58Digits (Suc 0) = ''2''"
  by (simp add: base58Digits.simps base58Alphabet_def)

lemma encodeBase58_vector: "encodeBase58 [0, 0, 0x28, 0x7f, 0xb4, 0xcd] = ''11233QC4''"
  by (simp add: encodeBase58_eq bigEndianValue_def base58Digits_numeral base58Digits_0
      base58Digits_1 base58Alphabet_def)

lemma empty_payload_identifier:
  "encodeBase58 (buildMultihash []) = ''QmdfTbBqBPQ7VNxZEYEj14VmRuZBkqFbiwReogJgS1zR1n''"
  unfolding buildMultihash_eq sha256_empty
  by (simp add: encodeBase58_eq bigEndianValue_def base58Digits_numeral base58Digits_0
      base58Digits_1 base58Alphabet_def)

section \<open>Properties\<close>

text \<open>
  C2. For every byte sequence, \<open>encodeBase58\<close> returns the base-58 digits of the input read
  as a big-endian number (repeated division by 58, remainder characters put in front),
  preceded by one \<open>1\<close> for each leading zero byte of the input. The empty input encodes to
  the empty string, and an input that starts with a zero byte encodes to \<open>1\<close> followed by
  the encoding of the rest.
\<close>

theorem encodeBase58_spec:
  "encodeBase58 input =
     replicate (length (takeWhile (\<lambda>b. b = 0) input)) (CHR ''1'')
       @ base58Digits (bigEndianValue input)
   \<and> encodeBase58 [] = []
   \<and> encodeBase58 (0 # rest) = CHR ''1'' # encodeBase58 rest"
  by (simp add: encodeBase58_eq base58Digits.simps)

text \<open>
  C1. The identifier that the in-memory adapter's upload returns is the base-58 encoding of
  the multihash of the payload: 34 bytes, the tag \<open>0x12\<close>, the length \<open>0x20\<close>, then the 32
  bytes of the SHA-256 digest. It depends on the payload alone: another filename and another
  adapter state give the same identifier.
\<close>

theorem upload_identifier:
  "fst (MockClient_Upload data filename c)
     = Inr \<lparr>Name = filename, IPFSHash = encodeBase58 (buildMultihash data),
            Size = decimal (length data)\<rparr>
   \<and> length (buildMultihash data) = 34
   \<and> buildMultihash data ! 0 = 0x12
   \<and> buildMultihash data ! 1 = 0x20
   \<and> drop 2 (buildMultihash data) = sha256 data
   \<and> length (sha256 data) = 32
   \<and> IPFSHash (projr (fst (MockClient_Upload data filename c)))
       = IPFSHash (projr (fst (MockClient_Upload data filename' c')))"
  by (simp add: MockClient_Upload_def Let_def buildMultihash_eq)

text \<open>
  C3. Round trip: in every adapter state and for every payload, the empty one included,
  \<open>Get\<close> with the identifier that \<open>Upload\<close> returned succeeds with exactly the payload.
\<close>

theorem upload_get_roundtrip:
  "fst (MockClient_Get (IPFSHash (projr (fst (MockClient_Upload b filename c))))
          (snd (MockClient_Upload b filename c))) = Inr b"
  by (simp add: MockClient_Upload_def MockClient_Get_def Let_def)

text \<open>
  C4. Uploading the same bytes a second time, under any filenames, succeeds with the same
  identifier and leaves the adapter, its storage map in particular, as the first upload
  left it.
\<close>

theorem upload_idempotent:
  "fst (MockClient_Upload b filename2 (snd (MockClient_Upload b filename1 c)))
     = Inr \<lparr>Name = filename2,
            IPFSHash = IPFSHash (projr (fst (MockClient_Upload b filename1 c))),
            Size = decimal (length b)\<rparr>
   \<and> storage (snd (MockClient_Upload b filename2 (snd (MockClient_Upload b filename1 c))))
       = storage (snd (MockClient_Upload b filename1 c))
   \<and> snd (MockClient_Upload b filename2 (snd (MockClient_Upload b filename1 c)))
       = snd (MockClient_Upload b filename1 c)"
  by (simp add: MockClient_Upload_def Let_def)

text \<open>
  C5. Each of the seven handlers answers a request whose required field is empty with the
  invalid-argument status and leaves the client's state as it was. This holds for every
  client, so also for one that records each call in its state: no call is made.
\<close>

theorem empty_required_field_rejected:
  "UploadContent client \<lparr>UploadContentRequest.Data = [], Filename = filename\<rparr> s
     = (Inl (Status InvalidArgument ''data is required''), s)
   \<and> UploadProto client \<lparr>UploadProtoRequest.ProtoData = [], ProtoType = protoType\<rparr> s
     = (Inl (Status InvalidArgument ''proto_data is required''), s)
   \<and> GetContent client \<lparr>GetContentRequest.Cid = []\<rparr> s
     = (Inl (Status InvalidArgument ''cid is required''), s)
   \<and> GetProto client \<lparr>GetProtoRequest.Cid = []\<rparr> s
     = (Inl (Status InvalidArgument ''cid is required''), s)
   \<and> PinContent client \<lparr>PinContentRequest.Cid = []\<rparr> s
     = (Inl (Status InvalidArgument ''cid is required''), s)
   \<and> UnpinContent client \<lparr>UnpinContentRequest.Cid = []\<rparr> s
     = (Inl (Status InvalidArgument ''cid is required''), s)
   \<and> GRPCServer_GetGatewayURL client \<lparr>GetGatewayURLRequest.Cid = []\<rparr> s
     = (Inl (Status InvalidArgument ''cid is required''), s)"
  by (simp add: UploadContent_def UploadProto_def GetContent_def GetProto_def PinContent_def
      UnpinContent_def GRPCServer_GetGatewayURL_def)

text \<open>
  C6. With the required field present, a handler returns what the client's call returned:
  on success the response carries the client's fields (the identifier and the parsed size,
  the bytes and their length, the success flag, the URL); a failed \<open>Upload\<close>, \<open>Pin\<close> or
  \<open>Unpin\<close> becomes the internal status and a failed \<open>Get\<close> the not-found status. Here \<open>s\<close>
  is a state in which the calls succeed and \<open>t\<close> one in which they fail.
\<close>

theorem adapter_outcome_mapping:
  "(UploadContentRequest.Data ucr \<noteq> []
      \<and> Upload client (UploadContentRequest.Data ucr)
            (if Filename ucr = [] then ''content'' else Filename ucr) s = (Inr r, s')
     \<longrightarrow> UploadContent client ucr s
           = (Inr \<lparr>UploadContentResponse.Cid = IPFSHash r,
                    UploadContentResponse.SizeBytes = fst (ParseInt (Size r))\<rparr>, s'))
   \<and> (UploadContentRequest.Data ucr \<noteq> []
      \<and> Upload client (UploadContentRequest.Data ucr)
            (if Filename ucr = [] then ''content'' else Filename ucr) t = (Inl e, t')
     \<longrightarrow> UploadContent client ucr t
           = (Inl (Status Internal (''failed to upload content: '' @ e)), t'))
   \<and> (UploadProtoRequest.ProtoData upr \<noteq> []
      \<and> Upload client (UploadProtoRequest.ProtoData upr)
            (if ProtoType upr = [] then ''data.pb'' else ProtoType upr @ ''.pb'') s = (Inr r, s')
     \<longrightarrow> UploadProto client upr s
           = (Inr \<lparr>UploadProtoResponse.Cid = IPFSHash r,
                    UploadProtoResponse.SizeBytes = fst (ParseInt (Size r))\<rparr>, s'))
   \<and> (UploadProtoRequest.ProtoData upr \<noteq> []
      \<and> Upload client (UploadProtoRequest.ProtoData upr)
            (if ProtoType upr = [] then ''data.pb'' else ProtoType upr @ ''.pb'') t = (Inl e, t')
     \<longrightarrow> UploadProto client upr t
           = (Inl (Status Internal (''failed to upload proto: '' @ e)), t'))
   \<and> (GetContentRequest.Cid gcr \<noteq> [] \<and> Get client (GetContentRequest.Cid gcr) s = (Inr data, s')
     \<longrightarrow> GetContent client gcr s
           = (Inr \<lparr>GetContentResponse.Data = data,
                    GetContentResponse.SizeBytes = int (length data)\<rparr>, s'))
   \<and> (GetContentRequest.Cid gcr \<noteq> [] \<and> Get client (GetContentRequest.Cid gcr) t = (Inl e, t')
     \<longrightarrow> GetContent client gcr t
           = (Inl (Status NotFound (''failed to get content: '' @ e)), t'))
   \<and> (GetProtoRequest.Cid gpr \<noteq> [] \<and> Get client (GetProtoRequest.Cid gpr) s = (Inr data, s')
     \<longrightarrow> GetProto client gpr s = (Inr \<lparr>GetProtoResponse.ProtoData = data\<rparr>, s'))
   \<and> (GetProtoRequest.Cid gpr \<noteq> [] \<and> Get client (GetProtoRequest.Cid gpr) t = (Inl e, t')
     \<longrightarrow> GetProto client gpr t
           = (Inl (Status NotFound (''failed to get proto: '' @ e)), t'))
   \<and> (PinContentRequest.Cid pcr \<noteq> [] \<and> Pin client (PinContentRequest.Cid pcr) s = (None, s')
     \<longrightarrow> PinContent client pcr s = (Inr \<lparr>PinContentResponse.Success = True\<rparr>, s'))
   \<and> (PinContentRequest.Cid pcr \<noteq> [] \<and> Pin client (PinContentRequest.Cid pcr) t = (Some e, t')
     \<longrightarrow> PinContent client pcr t
           = (Inl (Status Internal (''failed to pin content: '' @ e)), t'))
   \<and> (UnpinContentRequest.Cid ucr' \<noteq> []
      \<and> Unpin client (UnpinContentRequest.Cid ucr') s = (None, s')
     \<longrightarrow> UnpinContent client ucr' s = (Inr \<lparr>UnpinContentResponse.Success = True\<rparr>, s'))
   \<and> (UnpinContentRequest.Cid ucr' \<noteq> []
      \<and> Unpin client (UnpinContentRequest.Cid ucr') t = (Some e, t')
     \<longrightarrow> UnpinContent client ucr' t
           = (Inl (Status Internal (''failed to unpin content: '' @ e)), t'))
   \<and> (GetGatewayURLRequest.Cid ggr \<noteq> []
      \<and> GetGatewayURL client (GetGatewayURLRequest.Cid ggr) s = (url, s')
     \<longrightarrow> GRPCServer_GetGatewayURL client ggr s = (Inr \<lparr>Url = url\<rparr>, s'))"
  by (simp add: UploadContent_def UploadProto_def GetContent_def GetProto_def PinContent_def
      UnpinContent_def GRPCServer_GetGatewayURL_def Let_def)

theorem adapter_outcome_mapping_witness:
  "UploadContent (stubClient ''5'') \<lparr>UploadContentRequest.Data = [1], Filename = ''Book.pb''\<rparr> True
     = (Inr \<lparr>UploadContentResponse.Cid = ''QmStub'', UploadContentResponse.SizeBytes = 5\<rparr>, True)
   \<and> UploadContent (stubClient ''5'') \<lparr>UploadContentRequest.Data = [1], Filename = ''Book.pb''\<rparr> False
     = (Inl (Status Internal ''failed to upload content: backend down''), False)
   \<and> UploadProto (stubClient ''5'') \<lparr>UploadProtoRequest.ProtoData = [1], ProtoType = ''Book''\<rparr> True
     = (Inr \<lparr>UploadProtoResponse.Cid = ''QmStub'', UploadProtoResponse.SizeBytes = 5\<rparr>, True)
   \<and> UploadProto (stubClient ''5'') \<lparr>UploadProtoRequest.ProtoData = [1], ProtoType = ''Book''\<rparr> False
     = (Inl (Status Internal ''failed to upload proto: backend down''), False)
   \<and> GetContent (stubClient ''5'') \<lparr>GetContentRequest.Cid = ''QmStub''\<rparr> True
     = (Inr \<lparr>GetContentResponse.Data = [1, 2, 3], GetContentResponse.SizeBytes = 3\<rparr>, True)
   \<and> GetContent (stubClient ''5'') \<lparr>GetContentRequest.Cid = ''QmStub''\<rparr> False
     = (Inl (Status NotFound ''failed to get content: backend down''), False)
   \<and> GetProto (stubClient ''5'') \<lparr>GetProtoRequest.Cid = ''QmStub''\<rparr> True
     = (Inr \<lparr>GetProtoResponse.ProtoData = [1, 2, 3]\<rparr>, True)
   \<and> GetProto (stubClient ''5'') \<lparr>GetProtoRequest.Cid = ''QmStub''\<rparr> False
     = (Inl (Status NotFound ''failed to get proto: backend down''), False)
   \<and> PinContent (stubClient ''5'') \<lparr>PinContentRequest.Cid = ''QmStub''\<rparr> True
     = (Inr \<lparr>PinContentResponse.Success = True\<rparr>, True)
   \<and> PinContent (stubClient ''5'') \<lparr>PinContentRequest.Cid = ''QmStub''\<rparr> False
     = (Inl (Status Internal ''failed to pin content: backend down''), False)
   \<and> UnpinContent (stubClient ''5'') \<lparr>UnpinContentRequest.Cid = ''QmStub''\<rparr> True
     = (Inr \<lparr>UnpinContentResponse.Success = True\<rparr>, True)
   \<and> UnpinContent (stubClient ''5'') \<lparr>UnpinContentRequest.Cid = ''QmStub''\<rparr> False
     = (Inl (Status Internal ''failed to unpin content: backend down''), False)
   \<and> GRPCServer_GetGatewayURL (stubClient ''5'') \<lparr>GetGatewayURLRequest.Cid = ''QmStub''\<rparr> True
     = (Inr \<lparr>Url = ''https://gw/QmStub''\<rparr>, True)"
  using adapter_outcome_mapping
    [where client = "stubClient ''5''" and s = True and s' = True and t = False and t' = False
       and ucr = "\<lparr>UploadContentRequest.Data = [1], Filename = ''Book.pb''\<rparr>"
       and upr = "\<lparr>UploadProtoRequest.ProtoData = [1], ProtoType = ''Book''\<rparr>"
       and r = "\<lparr>Name = ''Book.pb'', IPFSHash = ''QmStub'', Size = ''5''\<rparr>"
       and gcr = "\<lparr>GetContentRequest.Cid = ''QmStub''\<rparr>"
       and gpr = "\<lparr>GetProtoRequest.Cid = ''QmStub''\<rparr>"
       and pcr = "\<lparr>PinContentRequest.Cid = ''QmStub''\<rparr>"
       and ucr' = "\<lparr>UnpinContentRequest.Cid = ''QmStub''\<rparr>"
       and ggr = "\<lparr>GetGatewayURLRequest.Cid = ''QmStub''\<rparr>"
       and data = "[1, 2, 3]" and e = "''backend down''" and url = "''https://gw/QmStub''"]
  by (simp add: stubClient_def ParseInt_5)

text \<open>
  C7. \<open>Pin\<close> and \<open>Unpin\<close> of the in-memory adapter return no error. After \<open>Pin x\<close> and then
  \<open>Unpin x\<close> the identifier is not pinned, every other identifier is pinned exactly if it
  was before, and the pin map is the original one without \<open>x\<close>; when \<open>x\<close> was not in the pin
  map before, the adapter is exactly as it was. \<open>Unpin x\<close> alone, for an \<open>x\<close> that is not
  pinned, leaves the pin map (and what \<open>IsPinned\<close> answers for every identifier) as it was.
\<close>

theorem pin_unpin:
  "fst (MockClient_Pin x c) = None
   \<and> fst (MockClient_Unpin x c) = None
   \<and> IsPinned x (snd (MockClient_Unpin x (snd (MockClient_Pin x c)))) = False
   \<and> pins (snd (MockClient_Unpin x (snd (MockClient_Pin x c)))) = (pins c)(x := None)
   \<and> IsPinned y (snd (MockClient_Unpin x (snd (MockClient_Pin x c))))
       = (if y = x then False else IsPinned y c)
   \<and> (pins c x = None \<longrightarrow> snd (MockClient_Unpin x (snd (MockClient_Pin x c))) = c)
   \<and> (pins c x = None \<longrightarrow> pins (snd (MockClient_Unpin x c)) = pins c)
   \<and> (IsPinned x c = False \<longrightarrow> IsPinned y (snd (MockClient_Unpin x c)) = IsPinned y c)"
  by (simp add: MockClient_Pin_def MockClient_Unpin_def IsPinned_def fun_upd_idem)

theorem pin_unpin_witness:
  "pins (NewMockClient []) ''QmX'' = None
   \<and> IsPinned ''QmX'' (NewMockClient []) = False
   \<and> fst (MockClient_Unpin ''QmX'' (NewMockClient [])) = None
   \<and> pins (snd (MockClient_Unpin ''QmX'' (NewMockClient []))) = pins (NewMockClient [])
   \<and> snd (MockClient_Unpin ''QmX'' (snd (MockClient_Pin ''QmX'' (NewMockClient []))))
       = NewMockClient []
   \<and> IsPinned ''QmX'' (snd (MockClient_Pin ''QmX'' (NewMockClient []))) = True
   \<and> IsPinned ''QmX''
        (snd (MockClient_Unpin ''QmX'' (snd (MockClient_Pin ''QmX'' (NewMockClient []))))) = False"
  using pin_unpin [of "''QmX''" "NewMockClient []"]
  by (simp add: NewMockClient_def MockClient_Pin_def IsPinned_def)

text \<open>
  C10. Frame: \<open>Pin\<close> and \<open>Unpin\<close> leave the storage map as it was, \<open>Upload\<close> leaves the pin map
  as it was, and \<open>Get\<close> leaves both as they were.
\<close>

theorem adapter_frame:
  "storage (snd (MockClient_Pin x c)) = storage c
   \<and> storage (snd (MockClient_Unpin x c)) = storage c
   \<and> pins (snd (MockClient_Upload data filename c)) = pins c
   \<and> storage (snd (MockClient_Get x c)) = storage c
   \<and> pins (snd (MockClient_Get x c)) = pins c"
  by (simp add: MockClient_Pin_def MockClient_Unpin_def MockClient_Upload_def MockClient_Get_def
      Let_def split: option.split)

text \<open>
  C8. When the cid is present and the client's \<open>Get\<close> succeeds, the \<open>size_bytes\<close> of the
  \<open>GetContent\<close> response is the length of the data in that same response: the handler
  computes it from the buffer, and nothing else the client holds enters it.
\<close>

theorem get_content_size:
  assumes "GetContentRequest.Cid req \<noteq> []"
    and "Get client (GetContentRequest.Cid req) s = (Inr data, s')"
  shows "fst (GetContent client req s)
           = Inr \<lparr>GetContentResponse.Data = data,
                  GetContentResponse.SizeBytes = int (length data)\<rparr>
         \<and> GetContentResponse.SizeBytes (projr (fst (GetContent client req s)))
           = int (length (GetContentResponse.Data (projr (fst (GetContent client req s)))))"
  using assms by (simp add: GetContent_def)

theorem get_content_size_witness:
  "GetContentRequest.Cid \<lparr>GetContentRequest.Cid = ''QmStub''\<rparr> \<noteq> []
   \<and> Get (stubClient ''999'') ''QmStub'' True = (Inr [1, 2, 3], True)
   \<and> fst (GetContent (stubClient ''999'') \<lparr>GetContentRequest.Cid = ''QmStub''\<rparr> True)
       = Inr \<lparr>GetContentResponse.Data = [1, 2, 3], GetContentResponse.SizeBytes = 3\<rparr>"
proof -
  have h1: "GetContentRequest.Cid \<lparr>GetContentRequest.Cid = ''QmStub''\<rparr> \<noteq> []"
    by simp
  have h2: "Get (stubClient ''999'') (GetContentRequest.Cid \<lparr>GetContentRequest.Cid = ''QmStub''\<rparr>) True
      = (Inr [1, 2, 3], True)"
    by (simp add: stubClient_def)
  from get_content_size [OF h1 h2] h1 h2 show ?thesis
    by simp
qed

text \<open>
  C9, as stated: a size string that \<open>ParseInt\<close> does not parse yields \<open>size_bytes = 0\<close>. It
  fails for a run of digits beyond the \<open>int64\<close> range: \<open>ParseInt\<close> reports a range error and
  returns the largest \<open>int64\<close>, which the handlers pass on.
\<close>

theorem size_parse_counterexample:
  "snd (ParseInt ''99999999999999999999'') = Some ErrRange
   \<and> UploadContent (stubClient ''99999999999999999999'')
        \<lparr>UploadContentRequest.Data = [1], Filename = []\<rparr> True
       = (Inr \<lparr>UploadContentResponse.Cid = ''QmStub'',
                UploadContentResponse.SizeBytes = 9223372036854775807\<rparr>, True)
   \<and> UploadProto (stubClient ''99999999999999999999'')
        \<lparr>UploadProtoRequest.ProtoData = [1], ProtoType = []\<rparr> True
       = (Inr \<lparr>UploadProtoResponse.Cid = ''QmStub'',
                UploadProtoResponse.SizeBytes = 9223372036854775807\<rparr>, True)"
  by (simp add: UploadContent_def UploadProto_def stubClient_def ParseInt_20_nines)

text \<open>
  C9, amended. When the upload request is not empty and the client's \<open>Upload\<close> succeeds,
  \<open>UploadContent\<close> and \<open>UploadProto\<close> succeed whatever the size string is, with the value
  \<open>ParseInt\<close> returns as \<open>size_bytes\<close>: 0 when \<open>ParseInt\<close> reports a syntax error (the string
  is not a number), and the nearest \<open>int64\<close> bound when it reports a range error.
\<close>

theorem size_parse_leniency:
  "(UploadContentRequest.Data ucr \<noteq> []
      \<and> Upload client (UploadContentRequest.Data ucr)
            (if Filename ucr = [] then ''content'' else Filename ucr) s = (Inr r, s')
     \<longrightarrow> UploadContent client ucr s
           = (Inr \<lparr>UploadContentResponse.Cid = IPFSHash r,
                    UploadContentResponse.SizeBytes = fst (ParseInt (Size r))\<rparr>, s'))
   \<and> (UploadContentRequest.Data ucr \<noteq> []
      \<and> Upload client (UploadContentRequest.Data ucr)
            (if Filename ucr = [] then ''content'' else Filename ucr) s = (Inr r, s')
      \<and> snd (ParseInt (Size r)) = Some ErrSyntax
     \<longrightarrow> UploadContent client ucr s
           = (Inr \<lparr>UploadContentResponse.Cid = IPFSHash r,
                    UploadContentResponse.SizeBytes = 0\<rparr>, s'))
   \<and> (UploadContentRequest.Data ucr \<noteq> []
      \<and> Upload client (UploadContentRequest.Data ucr)
            (if Filename ucr = [] then ''content'' else Filename ucr) s = (Inr r, s')
      \<and> snd (ParseInt (Size r)) = Some ErrRange
     \<longrightarrow> UploadContentResponse.SizeBytes (projr (fst (UploadContent client ucr s)))
             = 9223372036854775807
         \<or> UploadContentResponse.SizeBytes (projr (fst (UploadContent client ucr s)))
             = - 9223372036854775808)
   \<and> (UploadProtoRequest.ProtoData upr \<noteq> []
      \<and> Upload client (UploadProtoRequest.ProtoData upr)
            (if ProtoType upr = [] then ''data.pb'' else ProtoType upr @ ''.pb'') s = (Inr r, s')
     \<longrightarrow> UploadProto client upr s
           = (Inr \<lparr>UploadProtoResponse.Cid = IPFSHash r,
                    UploadProtoResponse.SizeBytes = fst (ParseInt (Size r))\<rparr>, s'))
   \<and> (UploadProtoRequest.ProtoData upr \<noteq> []
      \<and> Upload client (UploadProtoRequest.ProtoData upr)
            (if ProtoType upr = [] then ''data.pb'' else ProtoType upr @ ''.pb'') s = (Inr r, s')
      \<and> snd (ParseInt (Size r)) = Some ErrSyntax
     \<longrightarrow> UploadProto client upr s
           = (Inr \<lparr>UploadProtoResponse.Cid = IPFSHash r,
                    UploadProtoResponse.SizeBytes = 0\<rparr>, s'))
   \<and> (UploadProtoRequest.ProtoData upr \<noteq> []
      \<and> Upload client (UploadProtoRequest.ProtoData upr)
            (if ProtoType upr = [] then ''data.pb'' else ProtoType upr @ ''.pb'') s = (Inr r, s')
      \<and> snd (ParseInt (Size r)) = Some ErrRange
     \<longrightarrow> UploadProtoResponse.SizeBytes (projr (fst (UploadProto client upr s)))
             = 9223372036854775807
         \<or> UploadProtoResponse.SizeBytes (projr (fst (UploadProto client upr s)))
             = - 9223372036854775808)"
proof -
  have syn: "snd (ParseInt (Size r)) = Some ErrSyntax \<Longrightarrow> fst (ParseInt (Size r)) = 0"
    by (rule ParseInt_syntax_zero)
  have rng: "snd (ParseInt (Size r)) = Some ErrRange \<Longrightarrow>
      fst (ParseInt (Size r)) = 9223372036854775807
      \<or> fst (ParseInt (Size r)) = - 9223372036854775808"
    by (rule ParseInt_range_clamped)
  show ?thesis
    using syn rng by (simp add: UploadContent_def UploadProto_def Let_def)
qed

theorem size_parse_leniency_witness:
  "snd (ParseInt ''abc'') = Some ErrSyntax
   \<and> Upload (stubClient ''abc'') [1] ''data.pb'' True
       = (Inr \<lparr>Name = ''data.pb'', IPFSHash = ''QmStub'', Size = ''abc''\<rparr>, True)
   \<and> UploadContent (stubClient ''abc'')
        \<lparr>UploadContentRequest.Data = [1], Filename = ''data.pb''\<rparr> True
       = (Inr \<lparr>UploadContentResponse.Cid = ''QmStub'', UploadContentResponse.SizeBytes = 0\<rparr>, True)
   \<and> UploadProto (stubClient ''abc'')
        \<lparr>UploadProtoRequest.ProtoData = [1], ProtoType = []\<rparr> True
       = (Inr \<lparr>UploadProtoResponse.Cid = ''QmStub'', UploadProtoResponse.SizeBytes = 0\<rparr>, True)"
  using size_parse_leniency
    [where client = "stubClient ''abc''" and s = True and s' = True
       and ucr = "\<lparr>UploadContentRequest.Data = [1], Filename = ''data.pb''\<rparr>"
       and upr = "\<lparr>UploadProtoRequest.ProtoData = [1], ProtoType = []\<rparr>"
       and r = "\<lparr>Name = ''data.pb'', IPFSHash = ''QmStub'', Size = ''abc''\<rparr>"]
  by (simp add: stubClient_def ParseInt_abc)

end
